theory Spec2Isabelle
  imports Complex_Main
begin

section \<open>Python values used by the video analyzer\<close>

text \<open>
  Python's \<open>int\<close> is unbounded and is modelled as \<open>int\<close>. Python's \<open>float\<close> is modelled
  as an exact rational number (\<open>rat\<close>): rounding, infinities and NaN are outside the
  model. Strings are lists of characters with code points below 256.
\<close>

datatype 'x error =
    ValueError string
  | ZeroDivisionError
  | External 'x

text \<open>\<open>int(x)\<close> of a float truncates towards zero.\<close>

definition py_int :: "rat \<Rightarrow> int" where
  "py_int x = (if 0 \<le> x then \<lfloor>x\<rfloor> else \<lceil>x\<rceil>)"

text \<open>\<open>a / b\<close> raises \<open>ZeroDivisionError\<close> when \<open>b\<close> is zero.\<close>

definition truediv :: "rat \<Rightarrow> rat \<Rightarrow> 'x error + rat" where
  "truediv a b = (if b = 0 then Inl ZeroDivisionError else Inr (a / b))"

text \<open>
  \<open>x or d\<close> for an optional number \<open>x\<close>: \<open>None\<close> and zero are falsy, so both give \<open>d\<close>.
\<close>

definition py_or :: "'a::zero option \<Rightarrow> 'a \<Rightarrow> 'a" where
  "py_or x d = (case x of None \<Rightarrow> d | Some v \<Rightarrow> if v = 0 then d else v)"

text \<open>\<open>str.isspace\<close> on the code points below 256, and \<open>str.strip()\<close>.\<close>

definition isspace :: "char \<Rightarrow> bool" where
  "isspace c =
     (let n = of_char c :: nat
      in (9 \<le> n \<and> n \<le> 13) \<or> (28 \<le> n \<and> n \<le> 32) \<or> n = 133 \<or> n = 160)"

definition strip :: "string \<Rightarrow> string" where
  "strip s = rev (dropWhile isspace (rev (dropWhile isspace s)))"

definition startswith :: "string \<Rightarrow> string \<Rightarrow> bool" where
  "startswith s p = (take (length p) s = p)"

section \<open>app/config.py and app/schemas/video.py\<close>

record Settings =
  openai_api_key :: string
  openai_model :: string
  frame_samples :: int
  seconds_per_frame :: rat
  max_frame_samples :: int
  max_tokens :: int

text \<open>The configuration with the defaults of the fields of \<open>Settings\<close>; the key has none.\<close>

definition Settings_defaults :: "string \<Rightarrow> Settings" where
  "Settings_defaults api_key =
     \<lparr>openai_api_key = api_key, openai_model = ''gpt-4.1-mini'', frame_samples = 20,
      seconds_per_frame = 2, max_frame_samples = 120, max_tokens = 5000\<rparr>"

record VideoAnalysisResponse =
  summary :: string
  frames_used :: int
  model :: string
  frame_timestamps :: "rat list option"
  prompt :: "string option"
  total_frames :: "int option"
  video_duration_sec :: "rat option"
  sampling_interval_sec :: "rat option"
  requested_frame_samples :: "int option"

section \<open>app/utils/video.py\<close>

record FrameSample =
  index :: int
  timestamp_sec :: "rat option"
  data_url :: string

record VideoMetadata =
  frame_count :: int
  fps :: rat
  duration_sec :: "rat option"

text \<open>
  The decoding library is a parameter. A \<open>VideoCapture\<close> is what
  \<open>cv2.VideoCapture(str(video_path))\<close> returns: whether it opened, the two properties the
  code reads with \<open>cap.get\<close>, the decoder's state, and \<open>seek_read s idx\<close>, the result of
  \<open>cap.set(cv2.CAP_PROP_POS_FRAMES, idx)\<close> followed by \<open>cap.read()\<close> in state \<open>s\<close>: the
  frame (\<open>None\<close> when \<open>success\<close> is false) and the next state. \<open>cap.release()\<close> has no
  effect on the values computed and is left out.
\<close>

record ('s, 'f) VideoCapture =
  isOpened :: bool
  CAP_PROP_FRAME_COUNT :: rat
  CAP_PROP_FPS :: rat
  decoder :: 's
  seek_read :: "'s \<Rightarrow> int \<Rightarrow> 'f option \<times> 's"

text \<open>
  \<open>imencode frame\<close> is \<open>cv2.imencode(".jpg", frame)\<close>, a success flag and a buffer;
  \<open>b64encode buffer\<close> is \<open>base64.b64encode(buffer.tobytes()).decode("utf-8")\<close>.
\<close>

record ('f, 'b) codec =
  imencode :: "'f \<Rightarrow> bool \<times> 'b"
  b64encode :: "'b \<Rightarrow> string"

text \<open>
  \<open>_frame_indices\<close>. In the last branch \<open>samples\<close> is positive, so the division does not
  raise; \<open>range(samples)\<close> is \<open>[0..samples - 1]\<close> and \<open>sorted({...})\<close> sorts the set of the
  values.
\<close>

definition frame_indices :: "int \<Rightarrow> int \<Rightarrow> int list" where
  "frame_indices total_frames' samples =
     (if total_frames' \<le> 0 \<or> samples \<le> 0 then []
      else if samples \<ge> total_frames' then [0..total_frames' - 1]
      else
        let step = rat_of_int total_frames' / rat_of_int samples
        in sorted_list_of_set (set (map (\<lambda>i. py_int (rat_of_int i * step)) [0..samples - 1])))"

definition encode_frame :: "('f, 'b) codec \<Rightarrow> 'f \<Rightarrow> 'x error + string" where
  "encode_frame cv2 frame =
     (case imencode cv2 frame of
        (success, buffer) \<Rightarrow>
          if \<not> success then Inl (ValueError ''Failed to encode frame.'')
          else Inr (''data:image/jpeg;base64,'' @ b64encode cv2 buffer))"

definition get_video_metadata :: "('s, 'f) VideoCapture \<Rightarrow> 'x error + VideoMetadata" where
  "get_video_metadata cap =
     (if \<not> isOpened cap then Inl (ValueError ''Unable to read the provided video file.'')
      else
        let total_frames' = py_int (CAP_PROP_FRAME_COUNT cap);
            rate = py_or (Some (CAP_PROP_FPS cap)) 0
        in if rate > 0 then
             (case truediv (rat_of_int total_frames') rate of
                Inl e \<Rightarrow> Inl e
              | Inr duration \<Rightarrow>
                  Inr \<lparr>frame_count = total_frames', fps = rate, duration_sec = Some duration\<rparr>)
           else Inr \<lparr>frame_count = total_frames', fps = rate, duration_sec = None\<rparr>)"

text \<open>
  The \<open>for idx in indices\<close> loop of \<open>sample_video_frames\<close>, with the list \<open>samples\<close> as an
  accumulator. \<open>continue\<close> is the recursive call with \<open>samples\<close> unchanged; only a
  \<open>ValueError\<close> of \<open>_encode_frame\<close> is caught.
\<close>

fun sample_loop ::
  "('f, 'b) codec \<Rightarrow> ('s \<Rightarrow> int \<Rightarrow> 'f option \<times> 's) \<Rightarrow> rat \<Rightarrow> int list \<Rightarrow> 's \<Rightarrow>
   FrameSample list \<Rightarrow> 'x error + FrameSample list" where
  "sample_loop cv2 rd rate [] s samples = Inr samples"
| "sample_loop cv2 rd rate (idx # rest) s samples =
     (case rd s idx of
        (None, s') \<Rightarrow> sample_loop cv2 rd rate rest s' samples
      | (Some frame, s') \<Rightarrow>
          (case (if rate \<noteq> 0 then map_sum id Some (truediv (rat_of_int idx) rate) else Inr None) of
             Inl e \<Rightarrow> Inl e
           | Inr timestamp \<Rightarrow>
               (case encode_frame cv2 frame of
                  Inl (ValueError msg) \<Rightarrow> sample_loop cv2 rd rate rest s' samples
                | Inl e \<Rightarrow> Inl e
                | Inr url \<Rightarrow>
                    sample_loop cv2 rd rate rest s'
                      (samples @ [\<lparr>index = idx, timestamp_sec = timestamp, data_url = url\<rparr>]))))"

text \<open>
  \<open>sample_video_frames\<close>. In \<open>indices or _frame_indices(total_frames, sample_count)\<close> both
  \<open>None\<close> and the empty list are falsy.
\<close>

definition sample_video_frames ::
  "('f, 'b) codec \<Rightarrow> ('s, 'f) VideoCapture \<Rightarrow> int \<Rightarrow> int list option \<Rightarrow>
   'x error + FrameSample list" where
  "sample_video_frames cv2 cap sample_count indices =
     (if \<not> isOpened cap then Inl (ValueError ''Unable to read the provided video file.'')
      else
        let total_frames' = py_int (CAP_PROP_FRAME_COUNT cap);
            rate = py_or (Some (CAP_PROP_FPS cap)) 0;
            indices' =
              (case indices of
                 None \<Rightarrow> frame_indices total_frames' sample_count
               | Some xs \<Rightarrow> if xs \<noteq> [] then xs else frame_indices total_frames' sample_count)
        in sample_loop cv2 (seek_read cap) rate indices' (decoder cap) [])"

section \<open>app/services/video_analyzer.py\<close>

text \<open>
  The parts of the request sent to the inference service, and of its answer: \<open>choices\<close>
  holds \<open>message.content\<close> of each choice.
\<close>

datatype content_part = TextPart string | ImageUrlPart string

datatype message = SystemMessage string | UserMessage "content_part list"

record ChatCompletion =
  choices :: "string option list"

text \<open>
  \<open>time_based\<close> of \<open>_choose_sample_count\<close>: \<open>if metadata.duration_sec\<close> is false for \<open>None\<close>
  and for \<open>0.0\<close>.
\<close>

definition time_based_of :: "rat option \<Rightarrow> rat \<Rightarrow> int \<Rightarrow> 'x error + int" where
  "time_based_of duration interval baseline =
     (case duration of
        None \<Rightarrow> Inr baseline
      | Some d \<Rightarrow>
          if d = 0 then Inr baseline
          else (case truediv d interval of Inl e \<Rightarrow> Inl e | Inr q \<Rightarrow> Inr (py_int q + 1)))"

definition choose_sample_count ::
  "Settings \<Rightarrow> VideoMetadata \<Rightarrow> int option \<Rightarrow> rat option \<Rightarrow> 'x error + int \<times> rat" where
  "choose_sample_count settings metadata frame_samples_override interval_override =
     (let baseline = max (py_or frame_samples_override (frame_samples settings)) 1;
          interval = py_or interval_override (seconds_per_frame settings)
      in case time_based_of (duration_sec metadata) interval baseline of
           Inl e \<Rightarrow> Inl e
         | Inr time_based \<Rightarrow>
             let target = max baseline time_based;
                 target = (if frame_count metadata > 0 then min target (frame_count metadata)
                           else target);
                 target = min target (max_frame_samples settings)
             in Inr (max target 1, interval))"


definition build_user_content :: "string \<Rightarrow> FrameSample list \<Rightarrow> content_part list" where
  "build_user_content instruction frames =
     TextPart instruction # map (\<lambda>frame. ImageUrlPart (data_url frame)) frames"

definition default_instruction :: string where
  "default_instruction =
     ''Provide a rich, chronological explanation of the video. Summarize intent and outcome, list scene changes, '' @
     ''key actions, subjects/objects, and notable visual cues. Reference timestamps when visible.''"

definition system_directive :: string where
  "system_directive =
     ''You are an expert video analyst. Use the provided frames to reconstruct the story, noting scene '' @
     ''transitions, actions, and visual details. Provide detail without inventing elements not visible.''"

definition no_frames_message :: string where
  "no_frames_message = ''Could not sample frames from the provided video.''"

text \<open>\<open>instruction.strip() if instruction else (default)\<close>.\<close>

definition resolve_instruction :: "string option \<Rightarrow> string" where
  "resolve_instruction instruction =
     (case instruction of
        None \<Rightarrow> default_instruction
      | Some s \<Rightarrow> if s \<noteq> [] then strip s else default_instruction)"

text \<open>
  The assembly of the response, after the inference call returned \<open>completion\<close>.
\<close>

definition assemble ::
  "Settings \<Rightarrow> VideoMetadata \<Rightarrow> int \<Rightarrow> rat \<Rightarrow> FrameSample list \<Rightarrow> string \<Rightarrow>
   ChatCompletion \<Rightarrow> VideoAnalysisResponse" where
  "assemble settings metadata sample_target effective_interval frames user_instruction completion =
     (let content_v = (case choices completion of [] \<Rightarrow> Some [] | c # cs \<Rightarrow> c)
      in \<lparr>summary = (case content_v of None \<Rightarrow> [] | Some t \<Rightarrow> t),
          frames_used = int (length frames),
          model = openai_model settings,
          frame_timestamps =
            Some (map (\<lambda>f. the (timestamp_sec f)) (filter (\<lambda>f. timestamp_sec f \<noteq> None) frames)),
          prompt = Some user_instruction,
          total_frames = (if frame_count metadata = 0 then None else Some (frame_count metadata)),
          video_duration_sec = duration_sec metadata,
          sampling_interval_sec = Some effective_interval,
          requested_frame_samples = Some sample_target\<rparr>)"

text \<open>
  \<open>VideoAnalyzer.analyze\<close>. \<open>create\<close> is \<open>client.chat.completions.create\<close> called with the
  model, the messages and \<open>max_tokens\<close>; what it raises is carried by \<open>External\<close>. The video
  is opened once by \<open>get_video_metadata\<close> and once by \<open>sample_video_frames\<close>, each time
  giving \<open>cap\<close>.
\<close>

definition analyze ::
  "('f, 'b) codec \<Rightarrow> Settings \<Rightarrow> (string \<Rightarrow> message list \<Rightarrow> int \<Rightarrow> 'x + ChatCompletion) \<Rightarrow>
   ('s, 'f) VideoCapture \<Rightarrow> string option \<Rightarrow> int option \<Rightarrow> rat option \<Rightarrow>
   'x error + VideoAnalysisResponse" where
  "analyze cv2 settings create cap instruction frame_samples_req seconds_per_frame_req =
     (case get_video_metadata cap of
        Inl e \<Rightarrow> Inl e
      | Inr metadata \<Rightarrow>
          (case choose_sample_count settings metadata frame_samples_req seconds_per_frame_req of
             Inl e \<Rightarrow> Inl e
           | Inr (sample_target, effective_interval) \<Rightarrow>
               (case sample_video_frames cv2 cap sample_target None of
                  Inl e \<Rightarrow> Inl e
                | Inr frames \<Rightarrow>
                    if frames = [] then Inl (ValueError no_frames_message)
                    else
                      let user_instruction = resolve_instruction instruction;
                          messages =
                            [SystemMessage system_directive,
                             UserMessage (build_user_content user_instruction frames)]
                      in (case create (openai_model settings) messages (max_tokens settings) of
                            Inl x \<Rightarrow> Inl (External x)
                          | Inr completion \<Rightarrow>
                              Inr (assemble settings metadata sample_target effective_interval
                                     frames user_instruction completion)))))"

section \<open>app/api/v1/endpoints/video.py\<close>

text \<open>
  The endpoint \<open>analyze_video\<close> after the upload was stored: its checks of the request,
  the call of \<open>analyze\<close>, and \<open>except ValueError\<close>, which turns a \<open>ValueError\<close> into the
  HTTP status 400. Any other exception leaves the endpoint unhandled.
\<close>

datatype 'x failure = HTTPException nat string | Unhandled "'x error"

definition analyze_video ::
  "('f, 'b) codec \<Rightarrow> Settings \<Rightarrow> (string \<Rightarrow> message list \<Rightarrow> int \<Rightarrow> 'x + ChatCompletion) \<Rightarrow>
   ('s, 'f) VideoCapture \<Rightarrow> string option \<Rightarrow> string option \<Rightarrow> int option \<Rightarrow> rat option \<Rightarrow>
   'x failure + VideoAnalysisResponse" where
  "analyze_video cv2 settings create cap content_type instruction frame_samples_req
       seconds_per_frame_req =
     (if openai_api_key settings = [] then
        Inl (HTTPException 500 ''OPENAI_API_KEY is not configured.'')
      else if (case content_type of None \<Rightarrow> True
               | Some ct \<Rightarrow> ct = [] \<or> \<not> startswith ct ''video/'') then
        Inl (HTTPException 400 ''Please upload a valid video file.'')
      else if (case frame_samples_req of None \<Rightarrow> False | Some n \<Rightarrow> n \<le> 0) then
        Inl (HTTPException 400 ''frame_samples must be positive.'')
      else if (case seconds_per_frame_req of None \<Rightarrow> False | Some r \<Rightarrow> r \<le> 0) then
        Inl (HTTPException 400 ''seconds_per_frame must be positive.'')
      else
        (case analyze cv2 settings create cap instruction frame_samples_req
                seconds_per_frame_req of
           Inl (ValueError msg) \<Rightarrow> Inl (HTTPException 400 msg)
         | Inl e \<Rightarrow> Inl (Unhandled e)
         | Inr response \<Rightarrow> Inr response))"

section \<open>Attempts and successes of an extraction\<close>

text \<open>
  \<open>attempt cv2 rd rate s idx\<close> is what one index contributes when the decoder is in
  state \<open>s\<close>: the sample, or \<open>None\<close> when decoding or encoding fails there. \<open>attempts\<close>
  lists this for every index in turn, each from the state the previous reads left, and
  \<open>successes\<close> keeps the samples.
\<close>

definition attempt ::
  "('f, 'b) codec \<Rightarrow> ('s \<Rightarrow> int \<Rightarrow> 'f option \<times> 's) \<Rightarrow> rat \<Rightarrow> 's \<Rightarrow> int \<Rightarrow> FrameSample option" where
  "attempt cv2 rd rate s idx =
     (case fst (rd s idx) of
        None \<Rightarrow> None
      | Some frame \<Rightarrow>
          if fst (imencode cv2 frame) then
            Some \<lparr>index = idx,
                  timestamp_sec = (if rate = 0 then None else Some (rat_of_int idx / rate)),
                  data_url = ''data:image/jpeg;base64,'' @ b64encode cv2 (snd (imencode cv2 frame))\<rparr>
          else None)"

fun attempts ::
  "('f, 'b) codec \<Rightarrow> ('s \<Rightarrow> int \<Rightarrow> 'f option \<times> 's) \<Rightarrow> rat \<Rightarrow> int list \<Rightarrow> 's \<Rightarrow>
   FrameSample option list" where
  "attempts cv2 rd rate [] s = []"
| "attempts cv2 rd rate (idx # rest) s =
     attempt cv2 rd rate s idx # attempts cv2 rd rate rest (snd (rd s idx))"

fun successes :: "'a option list \<Rightarrow> 'a list" where
  "successes [] = []"
| "successes (None # rest) = successes rest"
| "successes (Some x # rest) = x # successes rest"

text \<open>The indices the extractor iterates over.\<close>

definition indices_used :: "('s, 'f) VideoCapture \<Rightarrow> int \<Rightarrow> int list option \<Rightarrow> int list" where
  "indices_used cap sample_count indices =
     (if indices = None \<or> indices = Some []
      then frame_indices (py_int (CAP_PROP_FRAME_COUNT cap)) sample_count
      else the indices)"

section \<open>Concrete inputs\<close>

text \<open>
  A four-frame video at 2 frames per second in which frame 1 does not decode and frame 2
  does not encode, a video of which no frame decodes, and an inference service that
  answers with one choice without content. The decoder state counts the reads.
\<close>

definition demo_codec :: "(string, string) codec" where
  "demo_codec = \<lparr>imencode = (\<lambda>frame. (frame \<noteq> ''corrupt'', frame)), b64encode = (\<lambda>buffer. buffer)\<rparr>"

definition demo_capture :: "(nat, string) VideoCapture" where
  "demo_capture =
     \<lparr>isOpened = True, CAP_PROP_FRAME_COUNT = 4, CAP_PROP_FPS = 2, decoder = 0,
      seek_read = (\<lambda>s idx. (if idx = 1 then None
                               else if idx = 2 then Some ''corrupt'' else Some ''QUJD'', Suc s))\<rparr>"

definition blank_capture :: "(nat, string) VideoCapture" where
  "blank_capture =
     \<lparr>isOpened = True, CAP_PROP_FRAME_COUNT = 4, CAP_PROP_FPS = 2, decoder = 0,
      seek_read = (\<lambda>s idx. (None, Suc s))\<rparr>"

definition demo_create :: "string \<Rightarrow> message list \<Rightarrow> int \<Rightarrow> unit + ChatCompletion" where
  "demo_create model_name messages limit = Inr \<lparr>choices = [None]\<rparr>"

section \<open>The frame index selector\<close>









text \<open>
  C6. The selector returns the empty list when \<open>total_frames \<le> 0\<close> or \<open>samples \<le> 0\<close>,
  every index \<open>0..total_frames - 1\<close> when \<open>samples \<ge> total_frames\<close>, and
  \<open>[0, 20, 40, 60, 80]\<close> for 100 frames and 5 samples.
\<close>

theorem frame_indices_cases:
  "(total_frames' \<le> 0 \<or> samples \<le> 0 \<longrightarrow> frame_indices total_frames' samples = []) \<and>
   (samples \<ge> total_frames' \<longrightarrow> frame_indices total_frames' samples = [0..total_frames' - 1]) \<and>
   frame_indices 100 5 = [0, 20, 40, 60, 80]"
proof -
  have a: "frame_indices 100 5 = [0, 20, 40, 60, 80]" by code_simp
  have b: "samples \<ge> total_frames' \<longrightarrow> frame_indices total_frames' samples = [0..total_frames' - 1]"
    by (simp add: frame_indices_def)
  have c: "total_frames' \<le> 0 \<or> samples \<le> 0 \<longrightarrow> frame_indices total_frames' samples = []"
    by (simp add: frame_indices_def)
  from a b c show ?thesis by blast
qed

theorem frame_indices_cases_witness:
  "frame_indices 0 5 = [] \<and> frame_indices 5 0 = [] \<and> frame_indices 10 20 = [0, 1, 2, 3, 4, 5, 6, 7, 8, 9]"
proof -
  have u: "[0..(9::int)] = [0, 1, 2, 3, 4, 5, 6, 7, 8, 9]" by code_simp
  from frame_indices_cases[of 0 5] frame_indices_cases[of 5 0] frame_indices_cases[of 10 20]
  show ?thesis by (simp add: u)
qed

section \<open>The sample budget planner\<close>













section \<open>The metadata reader and the frame extractor\<close>

lemma py_or_Some_zero: "py_or (Some x) 0 = x"
  by (simp add: py_or_def)

lemma sample_loop_attempts:
  "sample_loop cv2 rd rate idxs s acc =
     (Inr (acc @ successes (attempts cv2 rd rate idxs s)) :: 'x error + FrameSample list)"
proof (induction idxs arbitrary: s acc)
  case Nil
  show ?case by simp
next
  case (Cons idx rest)
  obtain fr s' where rd: "rd s idx = (fr, s')" by (cases "rd s idx")
  show ?case
  proof (cases fr)
    case None
    then show ?thesis using rd Cons.IH[of s' acc]
      by (simp add: attempt_def)
  next
    case (Some frame)
    obtain ok buf where enc: "imencode cv2 frame = (ok, buf)" by (cases "imencode cv2 frame")
    let ?x = "\<lparr>index = idx,
               timestamp_sec = (if rate = 0 then None else Some (rat_of_int idx / rate)),
               data_url = ''data:image/jpeg;base64,'' @ b64encode cv2 buf\<rparr>"
    show ?thesis
    proof (cases ok)
      case True
      have step: "sample_loop cv2 rd rate (idx # rest) s acc =
                  (sample_loop cv2 rd rate rest s' (acc @ [?x]) :: 'x error + FrameSample list)"
        using rd Some enc True by (simp add: encode_frame_def truediv_def)
      have att: "attempt cv2 rd rate s idx = Some ?x"
        using rd Some enc True by (simp add: attempt_def)
      show ?thesis
        unfolding step Cons.IH using rd att by simp
    next
      case False
      have step: "sample_loop cv2 rd rate (idx # rest) s acc =
                  (sample_loop cv2 rd rate rest s' acc :: 'x error + FrameSample list)"
        using rd Some enc False by (simp add: encode_frame_def truediv_def)
      have att: "attempt cv2 rd rate s idx = None"
        using rd Some enc False by (simp add: attempt_def)
      show ?thesis
        unfolding step Cons.IH using rd att by simp
    qed
  qed
qed

lemma length_attempts: "length (attempts cv2 rd rate idxs s) = length idxs"
  by (induction idxs arbitrary: s) simp_all

lemma sample_video_frames_opened:
  assumes "isOpened cap"
  shows "sample_video_frames cv2 cap n indices =
     (Inr (successes
        (attempts cv2 (seek_read cap) (CAP_PROP_FPS cap) (indices_used cap n indices) (decoder cap)))
      :: 'x error + FrameSample list)"
proof -
  have ix: "(case indices of None \<Rightarrow> frame_indices (py_int (CAP_PROP_FRAME_COUNT cap)) n
             | Some xs \<Rightarrow> if xs \<noteq> [] then xs else frame_indices (py_int (CAP_PROP_FRAME_COUNT cap)) n)
            = indices_used cap n indices"
    by (simp add: indices_used_def split: option.split)
  show ?thesis
    using assms
    by (simp add: sample_video_frames_def Let_def py_or_Some_zero ix sample_loop_attempts)
qed

lemma sample_video_frames_closed:
  "\<not> isOpened cap \<Longrightarrow>
   sample_video_frames cv2 cap n indices = Inl (ValueError ''Unable to read the provided video file.'')"
  by (simp add: sample_video_frames_def)

lemma get_video_metadata_closed:
  "\<not> isOpened cap \<Longrightarrow>
   get_video_metadata cap = Inl (ValueError ''Unable to read the provided video file.'')"
  by (simp add: get_video_metadata_def)

lemma get_video_metadata_opened:
  assumes "isOpened cap"
  shows "get_video_metadata cap =
     (Inr \<lparr>frame_count = py_int (CAP_PROP_FRAME_COUNT cap), fps = CAP_PROP_FPS cap,
           duration_sec = (if CAP_PROP_FPS cap > 0
                           then Some (rat_of_int (py_int (CAP_PROP_FRAME_COUNT cap)) / CAP_PROP_FPS cap)
                           else None)\<rparr> :: 'x error + VideoMetadata)"
  using assms by (simp add: get_video_metadata_def Let_def py_or_Some_zero truediv_def)

lemma choose_sample_count_error:
  "choose_sample_count settings metadata fso io = Inl e \<Longrightarrow> e = ZeroDivisionError"
  by (auto simp: choose_sample_count_def time_based_of_def truediv_def Let_def
      split: sum.splits option.splits if_splits)

lemma no_frames_message_neq: "no_frames_message \<noteq> ''Unable to read the provided video file.''"
  by (simp add: no_frames_message_def)

lemma analyze_Inr:
  "(analyze cv2 settings create cap instruction fs spf = Inr r) =
   (\<exists>metadata n iv frames completion.
      get_video_metadata cap = (Inr metadata :: 'x error + VideoMetadata) \<and>
      choose_sample_count settings metadata fs spf = (Inr (n, iv) :: 'x error + int \<times> rat) \<and>
      sample_video_frames cv2 cap n None = (Inr frames :: 'x error + FrameSample list) \<and>
      frames \<noteq> [] \<and>
      create (openai_model settings)
        [SystemMessage system_directive,
         UserMessage (build_user_content (resolve_instruction instruction) frames)]
        (max_tokens settings) = (Inr completion :: 'x + ChatCompletion) \<and>
      r = assemble settings metadata n iv frames (resolve_instruction instruction) completion)"
  unfolding analyze_def Let_def
  by (auto split: sum.splits prod.splits)

lemma analyze_no_frames:
  "(analyze cv2 settings create cap instruction fs spf =
      (Inl (ValueError no_frames_message) :: 'x error + VideoAnalysisResponse)) =
   (\<exists>metadata n iv.
      get_video_metadata cap = (Inr metadata :: 'x error + VideoMetadata) \<and>
      choose_sample_count settings metadata fs spf = (Inr (n, iv) :: 'x error + int \<times> rat) \<and>
      sample_video_frames cv2 cap n None = (Inr [] :: 'x error + FrameSample list))"
proof (cases "isOpened cap")
  case False
  then show ?thesis
    using no_frames_message_neq
    by (simp add: analyze_def get_video_metadata_closed)
next
  case True
  obtain md where md: "get_video_metadata cap = (Inr md :: 'x error + VideoMetadata)"
    using get_video_metadata_opened[OF True] by blast
  show ?thesis
  proof (cases "choose_sample_count settings md fs spf :: 'x error + int \<times> rat")
    case (Inl e)
    then show ?thesis using md choose_sample_count_error[OF Inl]
      by (simp add: analyze_def)
  next
    case (Inr p)
    obtain n iv where p: "p = (n, iv)" by (cases p)
    obtain frames where fr: "sample_video_frames cv2 cap n None = (Inr frames :: 'x error + FrameSample list)"
      using sample_video_frames_opened[OF True] by blast
    show ?thesis using md Inr p fr
      by (simp add: analyze_def Let_def split: sum.splits)
  qed
qed

section \<open>The concrete inputs evaluated\<close>

lemma upto_0_3: "[0..(3::int)] = [0, 1, 2, 3]"
  by code_simp

lemma demo_metadata:
  "get_video_metadata demo_capture = Inr \<lparr>frame_count = 4, fps = 2, duration_sec = Some 2\<rparr>"
  "get_video_metadata blank_capture = Inr \<lparr>frame_count = 4, fps = 2, duration_sec = Some 2\<rparr>"
  by (simp_all add: get_video_metadata_opened demo_capture_def blank_capture_def py_int_def)

lemma demo_budget:
  "choose_sample_count (Settings_defaults ''key'')
     \<lparr>frame_count = 4, fps = 2, duration_sec = Some 2\<rparr> None None = Inr (4, 2)"
  by (simp add: choose_sample_count_def Settings_defaults_def time_based_of_def truediv_def
      py_int_def py_or_def)

lemma demo_indices:
  "indices_used demo_capture 4 None = [0, 1, 2, 3]"
  "indices_used demo_capture 4 (Some []) = [0, 1, 2, 3]"
  "indices_used blank_capture 4 None = [0, 1, 2, 3]"
  by (simp_all add: indices_used_def frame_indices_def demo_capture_def blank_capture_def
      py_int_def upto_0_3)

lemma demo_opened: "isOpened demo_capture" "isOpened blank_capture"
  by (simp_all add: demo_capture_def blank_capture_def)

lemma demo_frames:
  "sample_video_frames demo_codec demo_capture 4 None =
     Inr [\<lparr>index = 0, timestamp_sec = Some 0, data_url = ''data:image/jpeg;base64,QUJD''\<rparr>,
          \<lparr>index = 3, timestamp_sec = Some (3 / 2), data_url = ''data:image/jpeg;base64,QUJD''\<rparr>]"
  by (simp add: sample_video_frames_opened demo_opened demo_indices)
     (simp add: demo_capture_def demo_codec_def attempt_def)

lemma blank_frames: "sample_video_frames demo_codec blank_capture 4 None = Inr []"
  by (simp add: sample_video_frames_opened demo_opened demo_indices)
     (simp add: blank_capture_def demo_codec_def attempt_def)




section \<open>Trimming, known timestamps and the endpoint\<close>




lemma known_timestamps:
  "map Some (map (\<lambda>f. the (timestamp_sec f)) (filter (\<lambda>f. timestamp_sec f \<noteq> None) frames)) =
   filter (\<lambda>t. t \<noteq> None) (map timestamp_sec frames)"
  by (induction frames) auto

lemma analyze_video_valid:
  assumes "openai_api_key settings \<noteq> []" and "content_type = Some ct" and "startswith ct ''video/''"
    and "\<forall>n. fs = Some n \<longrightarrow> 0 < n" and "\<forall>r. spf = Some r \<longrightarrow> 0 < r"
  shows "analyze_video cv2 settings create cap content_type instruction fs spf =
     (case analyze cv2 settings create cap instruction fs spf of
        Inl (ValueError msg) \<Rightarrow> Inl (HTTPException 400 msg)
      | Inl e \<Rightarrow> Inl (Unhandled e)
      | Inr response \<Rightarrow> Inr response)"
proof -
  have ct: "ct \<noteq> []" using assms(3) by (auto simp: startswith_def)
  have a: "\<not> (case fs of None \<Rightarrow> False | Some n \<Rightarrow> n \<le> 0)"
    using assms(4) by (cases fs) (simp_all add: not_le)
  have b: "\<not> (case spf of None \<Rightarrow> False | Some r \<Rightarrow> r \<le> 0)"
    using assms(5) by (cases spf) (simp_all add: not_le)
  show ?thesis
    unfolding analyze_video_def using assms(1-3) ct a b by simp
qed

section \<open>Metadata, explicit indices and the total frame count\<close>

text \<open>
  C7. The metadata reader never fails with a division by zero; on an opened video it
  returns metadata, and in the metadata it returns \<open>duration_sec\<close> is \<open>frame_count / fps\<close>
  when \<open>fps > 0\<close> and absent otherwise.
\<close>

theorem get_video_metadata_duration:
  "get_video_metadata cap \<noteq> (Inl ZeroDivisionError :: 'x error + VideoMetadata) \<and>
   (isOpened cap \<longrightarrow> (\<exists>md. get_video_metadata cap = (Inr md :: 'x error + VideoMetadata))) \<and>
   (\<forall>md. get_video_metadata cap = (Inr md :: 'x error + VideoMetadata) \<longrightarrow>
      frame_count md = py_int (CAP_PROP_FRAME_COUNT cap) \<and> fps md = CAP_PROP_FPS cap \<and>
      duration_sec md =
        (if fps md > 0 then Some (rat_of_int (frame_count md) / fps md) else None))"
proof (cases "isOpened cap")
  case True
  show ?thesis
    unfolding get_video_metadata_opened[OF True] by auto
next
  case False
  show ?thesis
    unfolding get_video_metadata_closed[OF False] using False by simp
qed

theorem get_video_metadata_duration_witness:
  "map_sum id duration_sec (get_video_metadata demo_capture) = (Inr (Some 2) :: unit error + rat option) \<and>
   map_sum id duration_sec
     (get_video_metadata
        \<lparr>isOpened = True, CAP_PROP_FRAME_COUNT = 4, CAP_PROP_FPS = 0, decoder = (0::nat),
         seek_read = (\<lambda>s idx. (None :: string option, s))\<rparr>) = (Inr None :: unit error + rat option)"
proof -
  let ?still = "\<lparr>isOpened = True, CAP_PROP_FRAME_COUNT = 4, CAP_PROP_FPS = 0, decoder = (0::nat),
         seek_read = (\<lambda>s idx. (None :: string option, s))\<rparr>"
  have o: "isOpened ?still" by simp
  from get_video_metadata_duration[where 'x = unit, of demo_capture] demo_opened(1)
  obtain md where md: "get_video_metadata demo_capture = (Inr md :: unit error + VideoMetadata)"
    and d: "duration_sec md = (if fps md > 0 then Some (rat_of_int (frame_count md) / fps md) else None)"
    and f: "fps md = CAP_PROP_FPS demo_capture"
    and c: "frame_count md = py_int (CAP_PROP_FRAME_COUNT demo_capture)"
    by blast
  from get_video_metadata_duration[where 'x = unit, of ?still] o
  obtain md' where md': "get_video_metadata ?still = (Inr md' :: unit error + VideoMetadata)"
    and d': "duration_sec md' = (if fps md' > 0 then Some (rat_of_int (frame_count md') / fps md') else None)"
    and f': "fps md' = CAP_PROP_FPS ?still"
    by blast
  have "duration_sec md = Some 2"
    unfolding d f c by (simp add: demo_capture_def py_int_def)
  moreover have "duration_sec md' = None"
    unfolding d' f' by simp
  ultimately show ?thesis by (simp add: md md')
qed

text \<open>
  C9. An explicit index list that is empty is treated as no list: the extractor gives the
  same result as without a list, the loop over the indices of the selector for
  \<open>(total_frames, sample_count)\<close>.
\<close>

theorem sample_video_frames_empty_indices:
  "sample_video_frames cv2 cap n (Some []) =
     (sample_video_frames cv2 cap n None :: 'x error + FrameSample list) \<and>
   (isOpened cap \<longrightarrow>
      sample_video_frames cv2 cap n (Some []) =
        (sample_loop cv2 (seek_read cap) (CAP_PROP_FPS cap)
           (frame_indices (py_int (CAP_PROP_FRAME_COUNT cap)) n) (decoder cap) []
         :: 'x error + FrameSample list))"
  by (simp add: sample_video_frames_def Let_def py_or_Some_zero)

theorem sample_video_frames_empty_indices_witness:
  "sample_video_frames demo_codec demo_capture 4 (Some []) =
     (Inr [\<lparr>index = 0, timestamp_sec = Some 0, data_url = ''data:image/jpeg;base64,QUJD''\<rparr>,
           \<lparr>index = 3, timestamp_sec = Some (3 / 2), data_url = ''data:image/jpeg;base64,QUJD''\<rparr>]
      :: unit error + FrameSample list) \<and>
   sample_loop demo_codec (seek_read demo_capture) (CAP_PROP_FPS demo_capture)
     (frame_indices (py_int (CAP_PROP_FRAME_COUNT demo_capture)) 4) (decoder demo_capture) [] =
     (Inr [\<lparr>index = 0, timestamp_sec = Some 0, data_url = ''data:image/jpeg;base64,QUJD''\<rparr>,
           \<lparr>index = 3, timestamp_sec = Some (3 / 2), data_url = ''data:image/jpeg;base64,QUJD''\<rparr>]
      :: unit error + FrameSample list)"
proof -
  note t = sample_video_frames_empty_indices[where 'x = unit, of demo_codec demo_capture 4]
  from t have a: "sample_video_frames demo_codec demo_capture 4 (Some []) =
     (sample_video_frames demo_codec demo_capture 4 None :: unit error + FrameSample list)"
    by blast
  from t demo_opened(1)
  have b: "sample_video_frames demo_codec demo_capture 4 (Some []) =
     (sample_loop demo_codec (seek_read demo_capture) (CAP_PROP_FPS demo_capture)
        (frame_indices (py_int (CAP_PROP_FRAME_COUNT demo_capture)) 4) (decoder demo_capture) []
      :: unit error + FrameSample list)"
    by blast
  from a b show ?thesis by (simp only: demo_frames)
qed



section \<open>The orchestrator\<close>

text \<open>
  C4. On an opened video the extractor never fails: it returns the samples of the
  successful attempts, in order, and there is one attempt for each index, so an index
  whose decoding or encoding fails is the only one skipped. \<open>analyze\<close> raises the no-frames
  error exactly when the steps before the extraction succeed and the extraction returns
  the empty list, and the endpoint turns that error into the HTTP status 400.
\<close>

theorem extraction_skips_failures:
  "(isOpened cap \<longrightarrow>
      sample_video_frames cv2 cap n indices =
        (Inr (successes (attempts cv2 (seek_read cap) (CAP_PROP_FPS cap)
                (indices_used cap n indices) (decoder cap)))
         :: 'x error + FrameSample list) \<and>
      length (attempts cv2 (seek_read cap) (CAP_PROP_FPS cap) (indices_used cap n indices)
                (decoder cap)) = length (indices_used cap n indices)) \<and>
   ((analyze cv2 settings create cap instruction fs spf =
       (Inl (ValueError no_frames_message) :: 'x error + VideoAnalysisResponse)) =
    (\<exists>metadata n' iv.
       get_video_metadata cap = (Inr metadata :: 'x error + VideoMetadata) \<and>
       choose_sample_count settings metadata fs spf = (Inr (n', iv) :: 'x error + int \<times> rat) \<and>
       sample_video_frames cv2 cap n' None = (Inr [] :: 'x error + FrameSample list))) \<and>
   (openai_api_key settings \<noteq> [] \<and> content_type = Some ct \<and> startswith ct ''video/'' \<and>
    (\<forall>k. fs = Some k \<longrightarrow> 0 < k) \<and> (\<forall>r. spf = Some r \<longrightarrow> 0 < r) \<and>
    analyze cv2 settings create cap instruction fs spf =
       (Inl (ValueError no_frames_message) :: 'x error + VideoAnalysisResponse) \<longrightarrow>
    analyze_video cv2 settings create cap content_type instruction fs spf =
       Inl (HTTPException 400 no_frames_message))"
proof (intro conjI impI)
  assume o: "isOpened cap"
  show "sample_video_frames cv2 cap n indices =
        (Inr (successes (attempts cv2 (seek_read cap) (CAP_PROP_FPS cap)
                (indices_used cap n indices) (decoder cap)))
         :: 'x error + FrameSample list)"
    by (rule sample_video_frames_opened[OF o])
  show "length (attempts cv2 (seek_read cap) (CAP_PROP_FPS cap) (indices_used cap n indices)
                (decoder cap)) = length (indices_used cap n indices)"
    by (rule length_attempts)
next
  show "(analyze cv2 settings create cap instruction fs spf =
       (Inl (ValueError no_frames_message) :: 'x error + VideoAnalysisResponse)) =
    (\<exists>metadata n' iv.
       get_video_metadata cap = (Inr metadata :: 'x error + VideoMetadata) \<and>
       choose_sample_count settings metadata fs spf = (Inr (n', iv) :: 'x error + int \<times> rat) \<and>
       sample_video_frames cv2 cap n' None = (Inr [] :: 'x error + FrameSample list))"
    by (rule analyze_no_frames)
next
  assume a: "openai_api_key settings \<noteq> [] \<and> content_type = Some ct \<and> startswith ct ''video/'' \<and>
    (\<forall>k. fs = Some k \<longrightarrow> 0 < k) \<and> (\<forall>r. spf = Some r \<longrightarrow> 0 < r) \<and>
    analyze cv2 settings create cap instruction fs spf =
       (Inl (ValueError no_frames_message) :: 'x error + VideoAnalysisResponse)"
  then have "analyze_video cv2 settings create cap content_type instruction fs spf =
     (case analyze cv2 settings create cap instruction fs spf of
        Inl (ValueError msg) \<Rightarrow> Inl (HTTPException 400 msg)
      | Inl e \<Rightarrow> Inl (Unhandled e)
      | Inr response \<Rightarrow> Inr response)"
    by (intro analyze_video_valid) blast+
  with a show "analyze_video cv2 settings create cap content_type instruction fs spf =
       Inl (HTTPException 400 no_frames_message)"
    by simp
qed

theorem extraction_skips_failures_witness:
  "sample_video_frames demo_codec demo_capture 4 None =
     (Inr [\<lparr>index = 0, timestamp_sec = Some 0, data_url = ''data:image/jpeg;base64,QUJD''\<rparr>,
           \<lparr>index = 3, timestamp_sec = Some (3 / 2), data_url = ''data:image/jpeg;base64,QUJD''\<rparr>]
      :: unit error + FrameSample list) \<and>
   analyze_video demo_codec (Settings_defaults ''key'') demo_create blank_capture
     (Some ''video/mp4'') None None None =
     Inl (HTTPException 400 ''Could not sample frames from the provided video.'')"
proof -
  note t1 = extraction_skips_failures[where 'x = unit, of demo_capture demo_codec 4 None
      "Settings_defaults ''key''" demo_create None None None None "[]"]
  note t2 = extraction_skips_failures[where 'x = unit, of blank_capture demo_codec 4 None
      "Settings_defaults ''key''" demo_create None None None "Some ''video/mp4''" "''video/mp4''"]
  have a: "sample_video_frames demo_codec demo_capture 4 None =
        (Inr (successes (attempts demo_codec (seek_read demo_capture) (CAP_PROP_FPS demo_capture)
                (indices_used demo_capture 4 None) (decoder demo_capture)))
         :: unit error + FrameSample list)"
    using t1 demo_opened(1) by blast
  have a': "sample_video_frames demo_codec demo_capture 4 None =
     (Inr [\<lparr>index = 0, timestamp_sec = Some 0, data_url = ''data:image/jpeg;base64,QUJD''\<rparr>,
           \<lparr>index = 3, timestamp_sec = Some (3 / 2), data_url = ''data:image/jpeg;base64,QUJD''\<rparr>]
      :: unit error + FrameSample list)"
    unfolding a demo_indices by (simp add: demo_capture_def demo_codec_def attempt_def)
  have "\<exists>metadata n' iv.
       get_video_metadata blank_capture = (Inr metadata :: unit error + VideoMetadata) \<and>
       choose_sample_count (Settings_defaults ''key'') metadata None None =
         (Inr (n', iv) :: unit error + int \<times> rat) \<and>
       sample_video_frames demo_codec blank_capture n' None = (Inr [] :: unit error + FrameSample list)"
    using demo_metadata(2) demo_budget blank_frames by blast
  with t2 have b: "analyze demo_codec (Settings_defaults ''key'') demo_create blank_capture None None None =
       (Inl (ValueError no_frames_message) :: unit error + VideoAnalysisResponse)"
    by blast
  have k: "openai_api_key (Settings_defaults ''key'') \<noteq> []" by (simp add: Settings_defaults_def)
  have v: "startswith ''video/mp4'' ''video/''" by (simp add: startswith_def)
  from t2 b k v have "analyze_video demo_codec (Settings_defaults ''key'') demo_create blank_capture
     (Some ''video/mp4'') None None None = Inl (HTTPException 400 no_frames_message)"
    by simp
  with a' show ?thesis by (simp add: no_frames_message_def)
qed

text \<open>
  C8. When the steps of \<open>analyze\<close> succeed and the inference call returns a completion,
  \<open>analyze\<close> returns a response: its summary is the content of the first choice, or the
  empty string when there is no choice or no content; \<open>frames_used\<close> is the number of
  extracted frames; \<open>model\<close> is the configured model; and \<open>frame_timestamps\<close> holds the
  known timestamps of the extracted frames, in order.
\<close>

theorem analyze_assembles_result:
  assumes "get_video_metadata cap = (Inr metadata :: 'x error + VideoMetadata)"
    and "choose_sample_count settings metadata fs spf = (Inr (n, iv) :: 'x error + int \<times> rat)"
    and "sample_video_frames cv2 cap n None = (Inr frames :: 'x error + FrameSample list)"
    and "frames \<noteq> []"
    and "create (openai_model settings)
           [SystemMessage system_directive,
            UserMessage (build_user_content (resolve_instruction instruction) frames)]
           (max_tokens settings) = (Inr completion :: 'x + ChatCompletion)"
  shows "\<exists>r ts. analyze cv2 settings create cap instruction fs spf = Inr r \<and>
     summary r = (case choices completion of [] \<Rightarrow> [] | None # rest \<Rightarrow> [] | Some t # rest \<Rightarrow> t) \<and>
     frames_used r = int (length frames) \<and>
     model r = openai_model settings \<and>
     frame_timestamps r = Some ts \<and>
     map Some ts = filter (\<lambda>t. t \<noteq> None) (map timestamp_sec frames)"
proof -
  let ?r = "assemble settings metadata n iv frames (resolve_instruction instruction) completion"
  let ?ts = "map (\<lambda>f. the (timestamp_sec f)) (filter (\<lambda>f. timestamp_sec f \<noteq> None) frames)"
  have run: "analyze cv2 settings create cap instruction fs spf = Inr ?r"
    unfolding analyze_Inr using assms by blast
  have s: "summary ?r = (case choices completion of [] \<Rightarrow> [] | None # rest \<Rightarrow> [] | Some t # rest \<Rightarrow> t)"
    by (simp add: assemble_def split: list.split option.split)
  have f: "frames_used ?r = int (length frames)" by (simp add: assemble_def)
  have m: "model ?r = openai_model settings" by (simp add: assemble_def)
  have t: "frame_timestamps ?r = Some ?ts" by (simp add: assemble_def)
  have k: "map Some ?ts = filter (\<lambda>t. t \<noteq> None) (map timestamp_sec frames)"
    by (rule known_timestamps)
  from run s f m t k show ?thesis by blast
qed

theorem analyze_assembles_result_witness:
  "map_sum id summary
     (analyze demo_codec (Settings_defaults ''key'') demo_create demo_capture None None None) =
     Inr [] \<and>
   map_sum id frames_used
     (analyze demo_codec (Settings_defaults ''key'') demo_create demo_capture None None None) =
     Inr 2 \<and>
   map_sum id frame_timestamps
     (analyze demo_codec (Settings_defaults ''key'') demo_create demo_capture None None None) =
     Inr (Some [0, 3 / 2])"
proof -
  let ?frames = "[\<lparr>index = 0, timestamp_sec = Some 0, data_url = ''data:image/jpeg;base64,QUJD''\<rparr>,
                  \<lparr>index = 3, timestamp_sec = Some (3 / 2), data_url = ''data:image/jpeg;base64,QUJD''\<rparr>]"
  have c: "demo_create (openai_model (Settings_defaults ''key''))
           [SystemMessage system_directive,
            UserMessage (build_user_content (resolve_instruction None) ?frames)]
           (max_tokens (Settings_defaults ''key'')) = Inr \<lparr>choices = [None]\<rparr>"
    by (simp add: demo_create_def)
  have ne: "?frames \<noteq> []" by simp
  from analyze_assembles_result[where create = demo_create and instruction = None,
      OF demo_metadata(1) demo_budget demo_frames ne c]
  obtain r ts where r: "analyze demo_codec (Settings_defaults ''key'') demo_create demo_capture
        None None None = Inr r"
    and s: "summary r = (case choices \<lparr>choices = [None]\<rparr> of [] \<Rightarrow> []
                         | None # rest \<Rightarrow> [] | Some t # rest \<Rightarrow> t)"
    and f: "frames_used r = int (length ?frames)"
    and t: "frame_timestamps r = Some ts"
    and k: "map Some ts = filter (\<lambda>t. t \<noteq> None) (map timestamp_sec ?frames)"
    by blast
  have "filter (\<lambda>t. t \<noteq> None) (map timestamp_sec ?frames) = [Some 0, Some (3 / 2)]"
    by (simp del: not_None_eq)
  with k have "map Some ts = map Some [0, 3 / 2]" by simp
  then have "ts = [0, 3 / 2]" by (simp only: inj_map_eq_map[OF inj_Some])
  with r s f t show ?thesis by simp
qed




end
